theory Spec2Isabelle
  imports Main "HOL-Library.Word"
begin

section \<open>Status values\<close>

text \<open>
  The canonical error space used by \<^verbatim>\<open>asylo::Status\<close>
  (\<^verbatim>\<open>error::GoogleError\<close>).
\<close>

datatype GoogleError =
    OK | CANCELLED | UNKNOWN | INVALID_ARGUMENT | DEADLINE_EXCEEDED | NOT_FOUND
  | ALREADY_EXISTS | PERMISSION_DENIED | RESOURCE_EXHAUSTED | FAILED_PRECONDITION
  | ABORTED | OUT_OF_RANGE | UNIMPLEMENTED | INTERNAL | UNAVAILABLE | DATA_LOSS
  | UNAUTHENTICATED

section \<open>Enclave lifecycle (trusted\_application.cc)\<close>

text \<open>
  Modelled from the spec: the declaration of \<^verbatim>\<open>TrustedApplication::State\<close>
  (trusted\_application.h is not among the sources). The enumerators are the six names
  trusted\_application.cc uses; their order is the one the specification gives
  (Uninitialized, InternalInitializing, UserInitializing, Running, Finalizing,
  Finalized), which is the order the comparisons in \<^verbatim>\<open>LogError\<close> and
  \<^verbatim>\<open>__asylo_handle_signal\<close> rely on.
\<close>

datatype State =
    kUninitialized | kInternalInitializing | kUserInitializing
  | kRunning | kFinalizing | kFinalized

text \<open>The underlying value of an enumerator, as used by the comparisons on states.\<close>

fun state_value :: "State \<Rightarrow> nat" where
  "state_value kUninitialized = 0"
| "state_value kInternalInitializing = 1"
| "state_value kUserInitializing = 2"
| "state_value kRunning = 3"
| "state_value kFinalizing = 4"
| "state_value kFinalized = 5"

text \<open>
  A status message is the argument list handed to \<^verbatim>\<open>absl::StrCat\<close>: string
  literals and enclave states, in order.
\<close>

datatype piece = Lit string | StateArg State

record Status =
  error_code :: GoogleError
  error_message :: "piece list"

definition OkStatus :: Status where
  "OkStatus = \<lparr>error_code = OK, error_message = []\<rparr>"

definition ok :: "Status \<Rightarrow> bool" where
  "ok s = (error_code s = OK)"

definition mkStatus :: "GoogleError \<Rightarrow> piece list \<Rightarrow> Status" where
  "mkStatus c m = \<lparr>error_code = c, error_message = m\<rparr>"

text \<open>
  An environment variable of the enclave configuration: both fields are optional in the
  protocol message.
\<close>

record EnvironmentVariable =
  var_name :: "string option"
  var_value :: "string option"

record EnclaveConfig =
  environment_variables :: "EnvironmentVariable list"

text \<open>
  The application object: the state field guarded by \<^verbatim>\<open>mutex_\<close>, together with
  the process-wide data the entry points write (enclave name, stored configuration,
  process environment).
\<close>

record TrustedApplication =
  enclave_state :: State
  enclave_name :: string
  stored_config :: "EnclaveConfig option"
  environ :: "(string \<times> string) list"

definition VerifyAndSetState ::
  "TrustedApplication \<Rightarrow> State \<Rightarrow> State \<Rightarrow> Status \<times> TrustedApplication" where
  "VerifyAndSetState app expected_state new_state =
     (if enclave_state app \<noteq> expected_state
      then (mkStatus FAILED_PRECONDITION
              [Lit ''Enclave is in state: '', StateArg (enclave_state app),
               Lit '' expected state: '', StateArg expected_state], app)
      else (OkStatus, app\<lparr>enclave_state := new_state\<rparr>))"

definition GetState :: "TrustedApplication \<Rightarrow> State" where
  "GetState app = enclave_state app"

definition SetState :: "TrustedApplication \<Rightarrow> State \<Rightarrow> TrustedApplication" where
  "SetState app s = app\<lparr>enclave_state := s\<rparr>"

text \<open>
  Pointers handed over by the caller: \<open>None\<close> is \<^verbatim>\<open>nullptr\<close>.
\<close>

type_synonym ptr = "nat option"

definition VerifyOutputArguments :: "ptr \<Rightarrow> ptr \<Rightarrow> Status" where
  "VerifyOutputArguments output output_len =
     (if output = None \<or> output_len = None
      then mkStatus INVALID_ARGUMENT
             [Lit ''Invalid input parameter passed to __asylo_user...()'']
      else OkStatus)"

text \<open>
  The C string a \<^verbatim>\<open>std::string\<close> hands over with \<^verbatim>\<open>c_str()\<close>: the bytes
  before the first NUL.
\<close>

definition up_to_nul :: "string \<Rightarrow> string" where
  "up_to_nul s = takeWhile (\<lambda>ch. ch \<noteq> CHR 0x00) s"

text \<open>
  \<^verbatim>\<open>setenv(name.c_str(), value.c_str(), overwrite)\<close> with \<^verbatim>\<open>overwrite = 0\<close>.
  A name that is empty or contains \<^verbatim>\<open>=\<close> is refused (\<^verbatim>\<open>EINVAL\<close>; the caller
  ignores the result) and the environment stays as it is; an existing variable keeps
  its value; otherwise the variable is added.
\<close>

definition setenv_keep :: "string \<Rightarrow> string \<Rightarrow> (string \<times> string) list \<Rightarrow> (string \<times> string) list" where
  "setenv_keep n v env =
     (let name = up_to_nul n; val = up_to_nul v
      in if name = [] \<or> CHR ''='' \<in> set name then env
         else if map_of env name = None then env @ [(name, val)]
         else env)"

fun InitializeEnvironmentVariables ::
  "EnvironmentVariable list \<Rightarrow> (string \<times> string) list \<Rightarrow> Status \<times> (string \<times> string) list" where
  "InitializeEnvironmentVariables [] env = (OkStatus, env)"
| "InitializeEnvironmentVariables (variable # variables) env =
     (case (var_name variable, var_value variable) of
        (Some n, Some v) \<Rightarrow> InitializeEnvironmentVariables variables (setenv_keep n v env)
      | _ \<Rightarrow> (mkStatus INVALID_ARGUMENT
                [Lit ''Environment variables should set both name and value fields''], env))"

text \<open>The finalization message and the signal message of the protocol.\<close>

datatype EnclaveFinal = EnclaveFinal string

record EnclaveSignal =
  signum :: int
  code :: int
  gregs :: "64 word list"

text \<open>
  What the entry points call but this file does not define: the protocol-buffer
  parsers, the virtual \<^verbatim>\<open>Initialize\<close> and \<^verbatim>\<open>Finalize\<close> methods a user
  overrides (member functions: they see the application object, whose state field is
  private to the base class), the initialization of the assertion authorities, and the
  signal-number translation of the bridge.
\<close>

record Collaborators =
  ParseEnclaveConfig :: "string \<Rightarrow> EnclaveConfig option"
  ParseEnclaveFinal :: "string \<Rightarrow> EnclaveFinal option"
  ParseEnclaveSignal :: "string \<Rightarrow> EnclaveSignal option"
  user_Initialize :: "TrustedApplication \<Rightarrow> EnclaveConfig \<Rightarrow> Status"
  user_Finalize :: "TrustedApplication \<Rightarrow> EnclaveFinal \<Rightarrow> Status"
  InitializeEnclaveAssertionAuthorities :: "EnclaveConfig \<Rightarrow> Status"
  FromBridgeSignal :: "int \<Rightarrow> int"

text \<open>
  \<^verbatim>\<open>TrustedApplication::InitializeInternal\<close>. \<^verbatim>\<open>InitializeIO\<close> and
  \<^verbatim>\<open>InitLogging\<close> act on the I/O manager and the logger only and return nothing
  that is inspected; the statuses of the environment variables and of the assertion
  authorities are logged and then dropped.
\<close>

definition InitializeInternal ::
  "Collaborators \<Rightarrow> TrustedApplication \<Rightarrow> EnclaveConfig \<Rightarrow> Status \<times> TrustedApplication" where
  "InitializeInternal c app config =
     (let (env_status, env) = InitializeEnvironmentVariables (environment_variables config) (environ app);
          app1 = app\<lparr>environ := env\<rparr>;
          app2 = app1\<lparr>stored_config := Some config\<rparr>;
          auth_status = InitializeEnclaveAssertionAuthorities c config;
          (status, app3) = VerifyAndSetState app2 kInternalInitializing kUserInitializing
      in if \<not> ok status then (status, app3)
         else (user_Initialize c app3 config, app3))"

text \<open>
  What an entry point hands back: either it returns 1 without writing any output, or it
  returns what \<^verbatim>\<open>status_serializer.Serialize(status)\<close> returns, after that call
  has written the status to the output. The entry points \<^verbatim>\<open>__asylo_user_init\<close>,
  \<^verbatim>\<open>__asylo_user_fini\<close> and \<^verbatim>\<open>__asylo_handle_signal\<close> are written
  without the leading underscores.
\<close>

datatype EntryResult = ReturnOne | Serialized Status

definition asylo_user_init ::
  "Collaborators \<Rightarrow> TrustedApplication \<Rightarrow> string \<Rightarrow> string \<Rightarrow> ptr \<Rightarrow> ptr
     \<Rightarrow> EntryResult \<times> TrustedApplication" where
  "asylo_user_init c app name config output output_len =
     (if \<not> ok (VerifyOutputArguments output output_len) then (ReturnOne, app)
      else case ParseEnclaveConfig c config of
        None \<Rightarrow> (Serialized (mkStatus INVALID_ARGUMENT [Lit ''Failed to parse EnclaveConfig'']), app)
      | Some enclave_config \<Rightarrow>
          (let (status, app1) = VerifyAndSetState app kUninitialized kInternalInitializing
           in if \<not> ok status then (Serialized status, app1)
              else (let app2 = app1\<lparr>enclave_name := name\<rparr>;
                        (status2, app3) = InitializeInternal c app2 enclave_config
                    in if \<not> ok status2
                       then (Serialized status2, SetState app3 kUninitialized)
                       else (Serialized status2, SetState app3 kRunning))))"

text \<open>
  \<^verbatim>\<open>__asylo_user_fini\<close>. \<^verbatim>\<open>ThreadManager::Finalize\<close> joins the enclave's
  threads and touches no field of the application object.
\<close>

definition asylo_user_fini ::
  "Collaborators \<Rightarrow> TrustedApplication \<Rightarrow> string \<Rightarrow> ptr \<Rightarrow> ptr
     \<Rightarrow> EntryResult \<times> TrustedApplication" where
  "asylo_user_fini c app input output output_len =
     (if \<not> ok (VerifyOutputArguments output output_len) then (ReturnOne, app)
      else case ParseEnclaveFinal c input of
        None \<Rightarrow> (Serialized (mkStatus INVALID_ARGUMENT [Lit ''Failed to parse EnclaveFinal'']), app)
      | Some enclave_final \<Rightarrow>
          (let (status, app1) = VerifyAndSetState app kRunning kFinalizing
           in if \<not> ok status then (Serialized status, app1)
              else (let status2 = user_Finalize c app1 enclave_final
                    in (Serialized status2, SetState app1 kFinalized))))"

subsection \<open>Signal delivery\<close>

text \<open>\<^verbatim>\<open>NGREG\<close> of \<^verbatim>\<open><sys/ucontext.h>\<close> on x86-64.\<close>

definition NGREG :: nat where
  "NGREG = 23"

record siginfo_t =
  si_signo :: int
  si_code :: int

text \<open>
  The register copy loop. The \<^verbatim>\<open>ucontext_t\<close> is a fresh local: a register the loop
  does not write stays indeterminate (\<open>None\<close>).
\<close>

function copy_gregs :: "nat \<Rightarrow> 64 word list \<Rightarrow> 64 word option list \<Rightarrow> 64 word option list" where
  "copy_gregs greg_index gs uc =
     (if greg_index < NGREG \<and> greg_index < length gs
      then copy_gregs (Suc greg_index) gs (uc[greg_index := Some (gs ! greg_index)])
      else uc)"
  by pat_completeness auto
termination
  by (relation "measure (\<lambda>(i, gs, uc). NGREG - i)") auto

declare copy_gregs.simps [simp del]

text \<open>
  The signal manager: the enclave's own signal mask, as the set of the signal numbers
  for which \<^verbatim>\<open>sigismember\<close> answers true, and the handler dispatch, which
  reports whether the handler's status was OK.
\<close>

record SignalManager =
  GetSignalMask :: "int set"
  HandleSignal :: "int \<Rightarrow> siginfo_t \<Rightarrow> 64 word option list \<Rightarrow> bool"

text \<open>
  The result of \<^verbatim>\<open>__asylo_handle_signal\<close>: the returned code and, when
  \<^verbatim>\<open>SignalManager::HandleSignal\<close> was called, the arguments of that call.
\<close>

record SignalResult =
  returned :: int
  handler_call :: "(int \<times> siginfo_t \<times> 64 word option list) option"

definition asylo_handle_signal ::
  "Collaborators \<Rightarrow> SignalManager \<Rightarrow> TrustedApplication \<Rightarrow> string \<Rightarrow> SignalResult" where
  "asylo_handle_signal c signal_manager app input =
     (case ParseEnclaveSignal c input of
        None \<Rightarrow> \<lparr>returned = 1, handler_call = None\<rparr>
      | Some signal \<Rightarrow>
          (let current_state = GetState app
           in if state_value current_state < state_value kRunning
                 \<or> state_value current_state > state_value kFinalizing
              then \<lparr>returned = 2, handler_call = None\<rparr>
              else (let sig = FromBridgeSignal c (signum signal)
                    in if sig < 0 then \<lparr>returned = 1, handler_call = None\<rparr>
                       else (let info = \<lparr>si_signo = sig, si_code = code signal\<rparr>;
                                 ucontext = copy_gregs 0 (gregs signal) (replicate NGREG None);
                                 mask = GetSignalMask signal_manager
                             in if sig \<in> mask then \<lparr>returned = - 1, handler_call = None\<rparr>
                                else if \<not> HandleSignal signal_manager sig info ucontext
                                then \<lparr>returned = 1, handler_call = Some (sig, info, ucontext)\<rparr>
                                else \<lparr>returned = 0, handler_call = Some (sig, info, ucontext)\<rparr>))))"

text \<open>
  The window of states in which \<^verbatim>\<open>__asylo_handle_signal\<close> lets a signal
  through: from Running to Finalizing, both included.
\<close>

definition in_signal_window :: "State \<Rightarrow> bool" where
  "in_signal_window s =
     (state_value kRunning \<le> state_value s \<and> state_value s \<le> state_value kFinalizing)"

section \<open>The fork ocall (ocalls.cc)\<close>

text \<open>The errno values of the host (Linux).\<close>

definition EAGAIN :: int where
  "EAGAIN = 11"

definition ENOMEM :: int where
  "ENOMEM = 12"

definition EFAULT :: int where
  "EFAULT = 14"

text \<open>
  What the host and the enclave runtime answer to the calls
  \<^verbatim>\<open>ocall_enc_untrusted_fork\<close> makes, in the order it makes them: the enclave
  manager, the snapshot, the loader extension, \<^verbatim>\<open>socketpair\<close>, \<^verbatim>\<open>pipe\<close>,
  \<^verbatim>\<open>fork\<close>, \<^verbatim>\<open>close\<close> of the unused pipe end, loading the child enclave and
  comparing its base address, the key transfer (\<^verbatim>\<open>close\<close> of the peer socket, then
  the enclave call), the restore, \<^verbatim>\<open>write\<close> (as a function of the byte count),
  \<^verbatim>\<open>select\<close> (as a function of the timeout in seconds), and \<^verbatim>\<open>read\<close>: either
  it fails with an errno, or it delivers what the pipe holds.
\<close>

record ForkHost =
  manager_ok :: bool
  take_snapshot_ok :: bool
  has_sgx_load_config :: bool
  socketpair_ret :: int
  pipe_ret :: int
  fork_ret :: int
  fork_errno :: int
  close_pipe_ret :: int
  load_enclave_ok :: bool
  same_base_address :: bool
  close_peer_ret :: int
  transfer_key_ok :: bool
  restore_ok :: bool
  write_ret :: "nat \<Rightarrow> int"
  write_errno :: int
  select_ret :: "int \<Rightarrow> int"
  select_errno :: int
  read_fails :: "int option"
  pipe_content :: string

text \<open>
  What the caller of the ocall observes: the returned process id or \<open>-1\<close>, the value
  of \<^verbatim>\<open>errno\<close> afterwards, and the string written to the confirmation pipe, if any.
\<close>

record ForkResult =
  fork_returned :: int
  errno_after :: int
  pipe_written :: "string option"

definition DoSnapshotKeyTransfer :: "ForkHost \<Rightarrow> bool" where
  "DoSnapshotKeyTransfer h = (if close_peer_ret h < 0 then False else transfer_key_ok h)"

text \<open>\<^verbatim>\<open>char buf[64]\<close>: a fresh local, every byte indeterminate (\<open>None\<close>).\<close>

definition buf_size :: nat where
  "buf_size = 64"

text \<open>
  \<^verbatim>\<open>read(fd, buf, count)\<close> on a pipe holding \<open>content\<close>: at most \<open>count\<close> bytes
  are copied to the front of the buffer, and their number is returned.
\<close>

definition read_into :: "string \<Rightarrow> nat \<Rightarrow> char option list \<Rightarrow> int \<times> char option list" where
  "read_into content count buf =
     (let got = take count content
      in (int (length got), map Some got @ drop (length got) buf))"

text \<open>
  A store \<^verbatim>\<open>buf[i] = v\<close>: \<open>None\<close> when the index is outside the array, where the
  behaviour of the program is undefined.
\<close>

definition store_char :: "char option list \<Rightarrow> int \<Rightarrow> char \<Rightarrow> char option list option" where
  "store_char buf i v =
     (if 0 \<le> i \<and> nat i < length buf then Some (buf[nat i := Some v]) else None)"

text \<open>
  \<^verbatim>\<open>strncmp(s1, s2, n)\<close> on an array and a string literal: at most \<open>n\<close>
  characters are compared, as unsigned bytes, up to and including the first NUL; only
  the sign of the result is specified. \<open>None\<close> when a read leaves an array or hits an
  indeterminate byte.
\<close>

fun strncmp :: "char option list \<Rightarrow> string \<Rightarrow> nat \<Rightarrow> int option" where
  "strncmp s1 s2 0 = Some 0"
| "strncmp [] s2 (Suc n) = None"
| "strncmp (a # s1) [] (Suc n) = None"
| "strncmp (None # s1) (b # s2) (Suc n) = None"
| "strncmp (Some a # s1) (b # s2) (Suc n) =
     (if a \<noteq> b then Some (if (of_char a :: nat) < of_char b then - 1 else 1)
      else if a = CHR 0x00 then Some 0
      else strncmp s1 s2 n)"

text \<open>A string literal as the array it denotes, with its terminating NUL.\<close>

definition c_str :: "string \<Rightarrow> string" where
  "c_str s = s @ [CHR 0x00]"

definition timeout_seconds :: int where
  "timeout_seconds = 5"

text \<open>
  The parent's wait for the child's confirmation (the end of the parent branch).
  \<open>None\<close> is undefined behaviour.
\<close>

definition wait_for_child :: "ForkHost \<Rightarrow> int \<Rightarrow> int \<Rightarrow> ForkResult option" where
  "wait_for_child h pid errno =
     (let wait_result = select_ret h timeout_seconds
      in if wait_result < 0
         then Some \<lparr>fork_returned = - 1, errno_after = select_errno h, pipe_written = None\<rparr>
         else if wait_result = 0
         then Some \<lparr>fork_returned = - 1, errno_after = EFAULT, pipe_written = None\<rparr>
         else (case read_fails h of
                 Some e \<Rightarrow> Some \<lparr>fork_returned = - 1, errno_after = e, pipe_written = None\<rparr>
               | None \<Rightarrow>
                   (let (rc, buf) = read_into (pipe_content h) buf_size (replicate buf_size None)
                    in if rc \<le> 0
                       then Some \<lparr>fork_returned = - 1, errno_after = errno, pipe_written = None\<rparr>
                       else (case store_char buf rc (CHR 0x00) of
                               None \<Rightarrow> None
                             | Some buf' \<Rightarrow>
                                 (case strncmp buf' (c_str ''Child fork succeeded'') buf_size of
                                    None \<Rightarrow> None
                                  | Some r \<Rightarrow>
                                      if r \<noteq> 0
                                      then Some \<lparr>fork_returned = - 1, errno_after = errno,
                                                 pipe_written = None\<rparr>
                                      else Some \<lparr>fork_returned = pid, errno_after = errno,
                                                 pipe_written = None\<rparr>)))))"

text \<open>
  The child's report to the parent: when \<^verbatim>\<open>write\<close> fails the child returns
  \<open>-1\<close> with the errno of \<^verbatim>\<open>write\<close>; otherwise it goes on to return \<open>ret\<close>
  with \<open>errno\<close>.
\<close>

definition report_to_parent :: "ForkHost \<Rightarrow> string \<Rightarrow> int \<Rightarrow> int \<Rightarrow> ForkResult" where
  "report_to_parent h child_result ret errno =
     (if write_ret h (length child_result) < 0
      then \<lparr>fork_returned = - 1, errno_after = write_errno h, pipe_written = None\<rparr>
      else \<lparr>fork_returned = ret, errno_after = errno, pipe_written = Some child_result\<rparr>)"

definition ocall_enc_untrusted_fork :: "ForkHost \<Rightarrow> bool \<Rightarrow> int \<Rightarrow> ForkResult option" where
  "ocall_enc_untrusted_fork h restore_snapshot errno =
     (if \<not> manager_ok h
      then Some \<lparr>fork_returned = - 1, errno_after = errno, pipe_written = None\<rparr>
      else if \<not> restore_snapshot
      then Some \<lparr>fork_returned = fork_ret h,
                 errno_after = (if fork_ret h = - 1 then fork_errno h else errno),
                 pipe_written = None\<rparr>
      else if \<not> take_snapshot_ok h
      then Some \<lparr>fork_returned = - 1, errno_after = ENOMEM, pipe_written = None\<rparr>
      else if \<not> has_sgx_load_config h
      then Some \<lparr>fork_returned = - 1, errno_after = EFAULT, pipe_written = None\<rparr>
      else if socketpair_ret h < 0
      then Some \<lparr>fork_returned = - 1, errno_after = EFAULT, pipe_written = None\<rparr>
      else if pipe_ret h < 0
      then Some \<lparr>fork_returned = - 1, errno_after = EFAULT, pipe_written = None\<rparr>
      else (let pid = fork_ret h
            in if pid = - 1
               then Some \<lparr>fork_returned = pid, errno_after = fork_errno h, pipe_written = None\<rparr>
               else if pid = 0
               then (if close_pipe_ret h < 0
                     then Some \<lparr>fork_returned = - 1, errno_after = EFAULT, pipe_written = None\<rparr>
                     else if \<not> load_enclave_ok h
                     then Some \<lparr>fork_returned = - 1, errno_after = ENOMEM, pipe_written = None\<rparr>
                     else if \<not> same_base_address h
                     then Some \<lparr>fork_returned = - 1, errno_after = EAGAIN, pipe_written = None\<rparr>
                     else if \<not> DoSnapshotKeyTransfer h
                     then Some (report_to_parent h ''Child DoSnapshotKeyTransfer failed'' (- 1) EFAULT)
                     else if \<not> restore_ok h
                     then Some (report_to_parent h ''Child EnterAndRestore failed'' (- 1) EAGAIN)
                     else Some (report_to_parent h ''Child fork succeeded'' pid errno))
               else (if close_pipe_ret h < 0
                     then Some \<lparr>fork_returned = - 1, errno_after = EFAULT, pipe_written = None\<rparr>
                     else if \<not> DoSnapshotKeyTransfer h
                     then Some \<lparr>fork_returned = - 1, errno_after = EFAULT, pipe_written = None\<rparr>
                     else wait_for_child h pid errno)))"

section \<open>ECDSA keys (ecdsa\_signing\_key\_test.h)\<close>

text \<open>
  The enumerations and messages of the key protocol, with the enumerators the tests
  name.
\<close>

datatype KeyType = UNKNOWN_KEY_TYPE | VERIFYING_KEY | SIGNING_KEY

datatype AsymmetricKeyEncoding =
  UNKNOWN_ASYMMETRIC_KEY_ENCODING | ASYMMETRIC_KEY_DER | ASYMMETRIC_KEY_PEM

datatype SignatureScheme = UNKNOWN_SIGNATURE_SCHEME | ECDSA_P256_SHA256 | ECDSA_P384_SHA384

record AsymmetricSigningKeyProto =
  key_type :: KeyType
  signature_scheme :: SignatureScheme
  encoding :: AsymmetricKeyEncoding
  key :: string

text \<open>
  A concrete key class (the \<^verbatim>\<open>VerifyingKeyType\<close> or \<^verbatim>\<open>SigningKeyType\<close> of a
  test fixture): whether it holds signing or verifying keys, its signature scheme, and
  the DER and PEM decoders of the cryptographic library, which answer \<open>None\<close> on
  bytes that are not in their format.
\<close>

record 'k KeyClass =
  class_key_type :: KeyType
  class_scheme :: SignatureScheme
  decode_der :: "string \<Rightarrow> 'k option"
  decode_pem :: "string \<Rightarrow> 'k option"

text \<open>
  Modelled from the spec: \<^verbatim>\<open>CreateFromDer\<close> of ecdsa\_signing\_key.h, which is not
  among the sources. Bytes that do not decode in the encoding asked for are an
  ``internal'' error.
\<close>

definition CreateFromDer :: "'k KeyClass \<Rightarrow> string \<Rightarrow> GoogleError + 'k" where
  "CreateFromDer cls bytes =
     (case decode_der cls bytes of None \<Rightarrow> Inl INTERNAL | Some k \<Rightarrow> Inr k)"

text \<open>
  Modelled from the spec: \<^verbatim>\<open>CreateFromPem\<close> of ecdsa\_signing\_key.h, which is not
  among the sources; as for DER.
\<close>

definition CreateFromPem :: "'k KeyClass \<Rightarrow> string \<Rightarrow> GoogleError + 'k" where
  "CreateFromPem cls bytes =
     (case decode_pem cls bytes of None \<Rightarrow> Inl INTERNAL | Some k \<Rightarrow> Inr k)"

text \<open>
  Modelled from the spec: \<^verbatim>\<open>CreateFromProto\<close> of ecdsa\_signing\_key.h, which is
  not among the sources. In the order the specification lists them: the key\_type tag
  must match the operation (signing or verifying), else invalid argument; the signature
  scheme must not be the unknown sentinel and must be the scheme of the key class, else
  invalid argument; the encoding must be a recognized enumerator, else unimplemented;
  and the key bytes are decoded in the encoding the tag names.
\<close>

definition CreateFromProto :: "'k KeyClass \<Rightarrow> AsymmetricSigningKeyProto \<Rightarrow> GoogleError + 'k" where
  "CreateFromProto cls key_proto =
     (if key_type key_proto \<noteq> class_key_type cls then Inl INVALID_ARGUMENT
      else if signature_scheme key_proto = UNKNOWN_SIGNATURE_SCHEME
              \<or> signature_scheme key_proto \<noteq> class_scheme cls then Inl INVALID_ARGUMENT
      else (case encoding key_proto of
              ASYMMETRIC_KEY_DER \<Rightarrow> CreateFromDer cls (key key_proto)
            | ASYMMETRIC_KEY_PEM \<Rightarrow> CreateFromPem cls (key key_proto)
            | UNKNOWN_ASYMMETRIC_KEY_ENCODING \<Rightarrow> Inl UNIMPLEMENTED))"

text \<open>A key message whose key\_type and signature scheme are those of the key class.\<close>

definition well_tagged :: "'k KeyClass \<Rightarrow> AsymmetricSigningKeyProto \<Rightarrow> bool" where
  "well_tagged cls p =
     (key_type p = class_key_type cls \<and> signature_scheme p = class_scheme cls
      \<and> signature_scheme p \<noteq> UNKNOWN_SIGNATURE_SCHEME)"

subsection \<open>Structured signatures\<close>

text \<open>
  The \<^verbatim>\<open>Signature\<close> message: a scheme tag and an optional ECDSA payload, whose
  R and S fields are optional byte strings.
\<close>

record EcdsaSignature =
  sig_r :: "string option"
  sig_s :: "string option"

record Signature =
  sig_scheme :: SignatureScheme
  ecdsa_signature :: "EcdsaSignature option"

text \<open>
  A verifying key: its scheme, the byte length of an integer modulo the curve order (32
  for P-256, 48 for P-384), and the key material.
\<close>

record 'k VerifyingKey =
  vk_scheme :: SignatureScheme
  vk_param_size :: nat
  vk_material :: 'k

text \<open>
  The status of a verification: success, a rejection with an error kind, or the
  verification failure that a cryptographically wrong signature is reported with.
\<close>

datatype VerifyStatus = Verified | Rejected GoogleError | VerificationFailed

record VerifyOutcome =
  verify_status :: VerifyStatus
  crypto_attempted :: bool

definition rejected_before_crypto :: VerifyOutcome where
  "rejected_before_crypto =
     \<lparr>verify_status = Rejected INVALID_ARGUMENT, crypto_attempted = False\<rparr>"

text \<open>
  Modelled from the spec: the \<^verbatim>\<open>Verify(message, Signature)\<close> overload of
  ecdsa\_signing\_key.h, which is not among the sources. The scheme tag must match the
  key's scheme; the ECDSA payload must be present; R and S must each be present and
  non-empty and have the byte length the curve order implies (a shorter or a longer
  one is rejected); each violation is an invalid argument. Only then is the
  cryptographic check \<open>ecdsa_verify\<close> of the library run, and its refusal is a
  verification failure.
\<close>

definition Verify ::
  "('k \<Rightarrow> string \<Rightarrow> string \<Rightarrow> string \<Rightarrow> bool) \<Rightarrow> 'k VerifyingKey \<Rightarrow> string \<Rightarrow> Signature
     \<Rightarrow> VerifyOutcome" where
  "Verify ecdsa_verify vk message signature =
     (if sig_scheme signature \<noteq> vk_scheme vk then rejected_before_crypto
      else case ecdsa_signature signature of
        None \<Rightarrow> rejected_before_crypto
      | Some e \<Rightarrow>
          (case (sig_r e, sig_s e) of
             (Some r, Some s) \<Rightarrow>
               if r = [] \<or> s = [] then rejected_before_crypto
               else if length r \<noteq> vk_param_size vk \<or> length s \<noteq> vk_param_size vk
               then rejected_before_crypto
               else \<lparr>verify_status =
                       (if ecdsa_verify (vk_material vk) message r s then Verified
                        else VerificationFailed),
                     crypto_attempted = True\<rparr>
           | _ \<Rightarrow> rejected_before_crypto))"

text \<open>
  The malformed signatures of the claim, in its words: a component is bad when it is
  missing, shorter or longer than the bound; a signature is structurally invalid when
  its scheme tag differs from the key's, its ECDSA payload is absent, or R or S is bad.
\<close>

definition bad_component :: "nat \<Rightarrow> string option \<Rightarrow> bool" where
  "bad_component bound c =
     (case c of None \<Rightarrow> True | Some bytes \<Rightarrow> length bytes < bound \<or> bound < length bytes)"

definition structurally_invalid :: "'k VerifyingKey \<Rightarrow> Signature \<Rightarrow> bool" where
  "structurally_invalid vk signature =
     (sig_scheme signature \<noteq> vk_scheme vk
      \<or> (case ecdsa_signature signature of
            None \<Rightarrow> True
          | Some e \<Rightarrow> bad_component (vk_param_size vk) (sig_r e)
                    \<or> bad_component (vk_param_size vk) (sig_s e)))"

section \<open>Sample collaborators and inputs\<close>

text \<open>
  Concrete values on which the theorems below are instantiated: a parser that refuses
  the single byte \<open>0xFF\<close> (a truncated field tag) and accepts everything else, user
  logic that answers with a fixed status, and the identity as signal translation.
\<close>

definition sample_parse :: "'a \<Rightarrow> string \<Rightarrow> 'a option" where
  "sample_parse v bytes = (if bytes = [CHR 0xFF] then None else Some v)"

definition sample_collaborators :: "Status \<Rightarrow> Collaborators" where
  "sample_collaborators st =
     \<lparr>ParseEnclaveConfig = sample_parse \<lparr>environment_variables = []\<rparr>,
      ParseEnclaveFinal = sample_parse (EnclaveFinal []),
      ParseEnclaveSignal = sample_parse \<lparr>signum = 10, code = 0, gregs = [1, 2]\<rparr>,
      user_Initialize = (\<lambda>app config. st),
      user_Finalize = (\<lambda>app final. st),
      InitializeEnclaveAssertionAuthorities = (\<lambda>config. OkStatus),
      FromBridgeSignal = (\<lambda>n. n)\<rparr>"

definition user_logic_failed :: Status where
  "user_logic_failed = mkStatus INTERNAL [Lit ''user logic failed'']"

definition sample_signal_manager :: "int set \<Rightarrow> SignalManager" where
  "sample_signal_manager m = \<lparr>GetSignalMask = m, HandleSignal = (\<lambda>sig info uc. True)\<rparr>"

text \<open>A bridge that knows no signal: every translation answers \<open>-1\<close>.\<close>

definition no_such_signal :: "int \<Rightarrow> int" where
  "no_such_signal n = - 1"

definition untranslating_collaborators :: Collaborators where
  "untranslating_collaborators =
     (sample_collaborators OkStatus)\<lparr>FromBridgeSignal := no_such_signal\<rparr>"

definition some_ptr :: ptr where
  "some_ptr = Some 4096"

definition app_in :: "State \<Rightarrow> TrustedApplication" where
  "app_in s = \<lparr>enclave_state = s, enclave_name = [], stored_config = None, environ = []\<rparr>"

text \<open>
  The application object as the user's \<^verbatim>\<open>Initialize\<close> sees it when
  \<^verbatim>\<open>__asylo_user_init\<close> was entered in state Uninitialized.
\<close>

definition user_view :: "TrustedApplication \<Rightarrow> string \<Rightarrow> EnclaveConfig \<Rightarrow> TrustedApplication" where
  "user_view app name cfg =
     app\<lparr>enclave_state := kUserInitializing, enclave_name := name,
         environ := snd (InitializeEnvironmentVariables (environment_variables cfg) (environ app)),
         stored_config := Some cfg\<rparr>"

text \<open>
  A host on which every step of the fork succeeds, \<^verbatim>\<open>fork\<close> returns \<open>pid\<close>, the
  restore in the child succeeds or not, and the pipe holds \<open>content\<close> for the parent.
\<close>

definition write_all :: "nat \<Rightarrow> int" where
  "write_all count = int count"

definition select_ready :: "int \<Rightarrow> int" where
  "select_ready timeout = 1"

definition sample_host :: "int \<Rightarrow> bool \<Rightarrow> string \<Rightarrow> ForkHost" where
  "sample_host pid restored content =
     \<lparr>manager_ok = True, take_snapshot_ok = True, has_sgx_load_config = True,
      socketpair_ret = 0, pipe_ret = 0, fork_ret = pid, fork_errno = 0, close_pipe_ret = 0,
      load_enclave_ok = True, same_base_address = True, close_peer_ret = 0,
      transfer_key_ok = True, restore_ok = restored, write_ret = write_all, write_errno = 0,
      select_ret = select_ready, select_errno = 0, read_fails = None, pipe_content = content\<rparr>"

text \<open>
  A key class whose PEM decoder accepts exactly the armoured strings and whose DER
  decoder refuses them, and the PEM key message of a test fixture.
\<close>

definition pem_header :: string where
  "pem_header = ''-----BEGIN''"

definition is_pem :: "string \<Rightarrow> bool" where
  "is_pem bytes = (take (length pem_header) bytes = pem_header)"

definition sample_key_class :: "KeyType \<Rightarrow> string KeyClass" where
  "sample_key_class kind =
     \<lparr>class_key_type = kind, class_scheme = ECDSA_P256_SHA256,
      decode_der = (\<lambda>bytes. if is_pem bytes \<or> bytes = [] then None else Some bytes),
      decode_pem = (\<lambda>bytes. if is_pem bytes then Some (drop (length pem_header) bytes) else None)\<rparr>"

definition pem_key_proto :: "KeyType \<Rightarrow> AsymmetricSigningKeyProto" where
  "pem_key_proto kind =
     \<lparr>key_type = kind, signature_scheme = ECDSA_P256_SHA256,
      encoding = ASYMMETRIC_KEY_PEM, key = ''-----BEGIN PUBLIC KEY-----''\<rparr>"

text \<open>
  A P-256 verifying key, signatures with the R and S strings of the tests, and two
  stand-ins for the cryptographic check: one that accepts and one that refuses
  everything.
\<close>

definition sample_verifying_key :: "string VerifyingKey" where
  "sample_verifying_key =
     \<lparr>vk_scheme = ECDSA_P256_SHA256, vk_param_size = 32, vk_material = ''Q''\<rparr>"

definition signature_with :: "SignatureScheme \<Rightarrow> string option \<Rightarrow> string option \<Rightarrow> Signature" where
  "signature_with scheme r s =
     \<lparr>sig_scheme = scheme, ecdsa_signature = Some \<lparr>sig_r = r, sig_s = s\<rparr>\<rparr>"

definition signature_without_payload :: Signature where
  "signature_without_payload = \<lparr>sig_scheme = ECDSA_P256_SHA256, ecdsa_signature = None\<rparr>"

definition full_size :: string where
  "full_size = replicate 32 (CHR ''x'')"

definition accept_any :: "string \<Rightarrow> string \<Rightarrow> string \<Rightarrow> string \<Rightarrow> bool" where
  "accept_any k m r s = True"

definition refuse_any :: "string \<Rightarrow> string \<Rightarrow> string \<Rightarrow> string \<Rightarrow> bool" where
  "refuse_any k m r s = False"

section \<open>The transition contract\<close>

text \<open>
  C1. For every expected state, new state and current state: when the current state
  differs from the expected one, \<^verbatim>\<open>VerifyAndSetState\<close> returns a
  FAILED\_PRECONDITION status whose message carries the current and the expected state,
  and the application object is unchanged; when they are equal, the state becomes the
  new state (nothing else changes) and the returned status is OK.
\<close>

theorem VerifyAndSetState_contract:
  "(enclave_state app \<noteq> expected \<longrightarrow>
      error_code (fst (VerifyAndSetState app expected new)) = FAILED_PRECONDITION
    \<and> StateArg (enclave_state app) \<in> set (error_message (fst (VerifyAndSetState app expected new)))
    \<and> StateArg expected \<in> set (error_message (fst (VerifyAndSetState app expected new)))
    \<and> snd (VerifyAndSetState app expected new) = app)
 \<and> (enclave_state app = expected \<longrightarrow>
      fst (VerifyAndSetState app expected new) = OkStatus
    \<and> ok (fst (VerifyAndSetState app expected new))
    \<and> snd (VerifyAndSetState app expected new) = app\<lparr>enclave_state := new\<rparr>
    \<and> enclave_state (snd (VerifyAndSetState app expected new)) = new)"
  by (simp add: VerifyAndSetState_def mkStatus_def OkStatus_def ok_def)

theorem VerifyAndSetState_contract_witness:
  "enclave_state (app_in kRunning) \<noteq> kUninitialized
 \<and> error_code (fst (VerifyAndSetState (app_in kRunning) kUninitialized kInternalInitializing))
     = FAILED_PRECONDITION
 \<and> snd (VerifyAndSetState (app_in kRunning) kUninitialized kInternalInitializing)
     = app_in kRunning
 \<and> enclave_state (app_in kRunning) = kRunning
 \<and> ok (fst (VerifyAndSetState (app_in kRunning) kRunning kFinalizing))
 \<and> enclave_state (snd (VerifyAndSetState (app_in kRunning) kRunning kFinalizing)) = kFinalizing"
  using VerifyAndSetState_contract [of "app_in kRunning" kUninitialized kInternalInitializing]
        VerifyAndSetState_contract [of "app_in kRunning" kRunning kFinalizing]
  by (simp add: app_in_def ok_def OkStatus_def)

section \<open>Initialization\<close>

lemma sample_collaborators_simps [simp]:
  "ParseEnclaveConfig (sample_collaborators st) ''cfg'' = Some \<lparr>environment_variables = []\<rparr>"
  "ParseEnclaveConfig (sample_collaborators st) [CHR 0xFF] = None"
  "ParseEnclaveFinal (sample_collaborators st) ''fin'' = Some (EnclaveFinal [])"
  "ParseEnclaveFinal (sample_collaborators st) [CHR 0xFF] = None"
  "ParseEnclaveSignal (sample_collaborators st) ''sig''
     = Some \<lparr>signum = 10, code = 0, gregs = [1, 2]\<rparr>"
  "user_Initialize (sample_collaborators st) a cfg = st"
  "user_Finalize (sample_collaborators st) a fin = st"
  "FromBridgeSignal (sample_collaborators st) n = n"
  by (simp_all add: sample_collaborators_def sample_parse_def)

lemma some_ptr_not_null: "some_ptr \<noteq> None"
  by (simp add: some_ptr_def)

lemma user_logic_failed_not_ok: "\<not> ok user_logic_failed"
  by (simp add: user_logic_failed_def ok_def mkStatus_def)

lemma OkStatus_ok: "ok OkStatus"
  by (simp add: ok_def OkStatus_def)

text \<open>
  Entered in state InternalInitializing, \<^verbatim>\<open>InitializeInternal\<close> stores the
  configuration and the environment, moves to UserInitializing and returns the status
  of the user's \<^verbatim>\<open>Initialize\<close>, which runs on that object.
\<close>

lemma InitializeInternal_from_internal:
  "enclave_state app = kInternalInitializing \<Longrightarrow>
   InitializeInternal c app cfg =
     (user_Initialize c (app\<lparr>enclave_state := kUserInitializing,
         environ := snd (InitializeEnvironmentVariables (environment_variables cfg) (environ app)),
         stored_config := Some cfg\<rparr>) cfg,
      app\<lparr>enclave_state := kUserInitializing,
         environ := snd (InitializeEnvironmentVariables (environment_variables cfg) (environ app)),
         stored_config := Some cfg\<rparr>)"
  by (cases app)
     (simp add: InitializeInternal_def VerifyAndSetState_def Let_def ok_def OkStatus_def
      split: prod.splits)

text \<open>
  C2, as amended. A call of \<^verbatim>\<open>__asylo_user_init\<close> reports success only when the
  enclave state was Uninitialized, and in any other state it changes nothing. With a
  null output pointer it returns 1 without output, and with output pointers that are
  not null and a configuration that does not parse it reports an invalid argument; in
  both cases nothing changes, whatever the state. With output pointers that are not
  null and a configuration that parses: in any state other than Uninitialized the call
  reports the FAILED\_PRECONDITION error of the state check and changes nothing; in
  state Uninitialized the user's \<^verbatim>\<open>Initialize\<close> runs in state UserInitializing, its
  status is what is serialized to the caller, and the state afterwards is Running when
  that status is OK and Uninitialized again when it is not, so that the call can be
  retried. The status of the user's \<^verbatim>\<open>Initialize\<close> is the only way the
  initialization fails once the state has advanced: a failure of the environment
  variables or of the assertion authorities is logged and dropped, and does not enter
  the result.
\<close>

theorem asylo_user_init_contract:
  "(\<forall>st. fst (asylo_user_init c app name config output output_len) = Serialized st \<and> ok st
        \<longrightarrow> enclave_state app = kUninitialized)
 \<and> (enclave_state app \<noteq> kUninitialized
        \<longrightarrow> snd (asylo_user_init c app name config output output_len) = app)
 \<and> (output = None \<or> output_len = None \<longrightarrow>
      asylo_user_init c app name config output output_len = (ReturnOne, app))
 \<and> (output \<noteq> None \<and> output_len \<noteq> None \<and> ParseEnclaveConfig c config = None \<longrightarrow>
      asylo_user_init c app name config output output_len
        = (Serialized (mkStatus INVALID_ARGUMENT [Lit ''Failed to parse EnclaveConfig'']), app))
 \<and> (output \<noteq> None \<and> output_len \<noteq> None \<and> ParseEnclaveConfig c config = Some cfg \<longrightarrow>
      (enclave_state app \<noteq> kUninitialized \<longrightarrow>
         asylo_user_init c app name config output output_len
           = (Serialized (mkStatus FAILED_PRECONDITION
               [Lit ''Enclave is in state: '', StateArg (enclave_state app),
                Lit '' expected state: '', StateArg kUninitialized]), app))
    \<and> (enclave_state app = kUninitialized \<longrightarrow>
         enclave_state (user_view app name cfg) = kUserInitializing
       \<and> asylo_user_init c app name config output output_len
           = (Serialized (user_Initialize c (user_view app name cfg) cfg),
              (user_view app name cfg)
                \<lparr>enclave_state := (if ok (user_Initialize c (user_view app name cfg) cfg)
                                    then kRunning else kUninitialized)\<rparr>)))"
  by (cases app)
     (auto simp: asylo_user_init_def VerifyOutputArguments_def VerifyAndSetState_def
        InitializeInternal_from_internal user_view_def SetState_def
        mkStatus_def ok_def OkStatus_def Let_def
      split: option.splits prod.splits if_splits)

text \<open>
  The claim as stated fails on a configuration that does not parse: in state Running
  the call reports an invalid argument, not a precondition error.
\<close>

theorem asylo_user_init_counterexample:
  "enclave_state (app_in kRunning) \<noteq> kUninitialized
 \<and> asylo_user_init (sample_collaborators OkStatus) (app_in kRunning) ''enclave'' [CHR 0xFF]
       some_ptr some_ptr
     = (Serialized (mkStatus INVALID_ARGUMENT [Lit ''Failed to parse EnclaveConfig'']),
        app_in kRunning)
 \<and> error_code (mkStatus INVALID_ARGUMENT [Lit ''Failed to parse EnclaveConfig''])
     \<noteq> FAILED_PRECONDITION"
  by (simp add: asylo_user_init_def VerifyOutputArguments_def some_ptr_def ok_def OkStatus_def
        mkStatus_def app_in_def)

text \<open>
  A failed initialization followed by a retry that succeeds, a call in state Running,
  a call with a null output pointer, and a call with a configuration that does not
  parse.
\<close>

theorem asylo_user_init_contract_witness:
  "fst (asylo_user_init (sample_collaborators user_logic_failed) (app_in kUninitialized)
          ''enclave'' ''cfg'' some_ptr some_ptr) = Serialized user_logic_failed
 \<and> enclave_state (snd (asylo_user_init (sample_collaborators user_logic_failed)
          (app_in kUninitialized) ''enclave'' ''cfg'' some_ptr some_ptr)) = kUninitialized
 \<and> fst (asylo_user_init (sample_collaborators OkStatus)
          (snd (asylo_user_init (sample_collaborators user_logic_failed) (app_in kUninitialized)
                 ''enclave'' ''cfg'' some_ptr some_ptr))
          ''enclave'' ''cfg'' some_ptr some_ptr) = Serialized OkStatus
 \<and> enclave_state (snd (asylo_user_init (sample_collaborators OkStatus)
          (snd (asylo_user_init (sample_collaborators user_logic_failed) (app_in kUninitialized)
                 ''enclave'' ''cfg'' some_ptr some_ptr))
          ''enclave'' ''cfg'' some_ptr some_ptr)) = kRunning
 \<and> asylo_user_init (sample_collaborators OkStatus) (app_in kRunning) ''enclave'' ''cfg''
       some_ptr some_ptr
     = (Serialized (mkStatus FAILED_PRECONDITION
               [Lit ''Enclave is in state: '', StateArg kRunning,
                Lit '' expected state: '', StateArg kUninitialized]), app_in kRunning)
 \<and> asylo_user_init (sample_collaborators OkStatus) (app_in kUninitialized) ''enclave'' ''cfg''
       None some_ptr
     = (ReturnOne, app_in kUninitialized)
 \<and> asylo_user_init (sample_collaborators OkStatus) (app_in kUninitialized) ''enclave''
       [CHR 0xFF] some_ptr some_ptr
     = (Serialized (mkStatus INVALID_ARGUMENT [Lit ''Failed to parse EnclaveConfig'']),
        app_in kUninitialized)"
proof -
  let ?cfg = "\<lparr>environment_variables = []\<rparr>"
  let ?first = "asylo_user_init (sample_collaborators user_logic_failed) (app_in kUninitialized)
                  ''enclave'' ''cfg'' some_ptr some_ptr"
  let ?retry = "asylo_user_init (sample_collaborators OkStatus) (snd ?first)
                  ''enclave'' ''cfg'' some_ptr some_ptr"
  have p1: "some_ptr \<noteq> None \<and> some_ptr \<noteq> None
      \<and> ParseEnclaveConfig (sample_collaborators user_logic_failed) ''cfg'' = Some ?cfg"
    by (simp add: some_ptr_not_null)
  have p2: "some_ptr \<noteq> None \<and> some_ptr \<noteq> None
      \<and> ParseEnclaveConfig (sample_collaborators OkStatus) ''cfg'' = Some ?cfg"
    by (simp add: some_ptr_not_null)
  have p3: "some_ptr \<noteq> None \<and> some_ptr \<noteq> None
      \<and> ParseEnclaveConfig (sample_collaborators OkStatus) [CHR 0xFF] = None"
    by (simp add: some_ptr_not_null)
  have p4: "(None :: ptr) = None \<or> some_ptr = None"
    by simp
  have s0: "enclave_state (app_in kUninitialized) = kUninitialized"
    by (simp add: app_in_def)
  have s3: "enclave_state (app_in kRunning) \<noteq> kUninitialized"
    by (simp add: app_in_def)
  note T1 = asylo_user_init_contract [of "sample_collaborators user_logic_failed"
      "app_in kUninitialized" "''enclave''" "''cfg''" some_ptr some_ptr ?cfg,
      THEN conjunct2, THEN conjunct2, THEN conjunct2, THEN conjunct2, THEN mp, OF p1,
      THEN conjunct2, THEN mp, OF s0, THEN conjunct2]
  have a: "fst ?first = Serialized user_logic_failed"
    using arg_cong [OF T1, of fst] by (simp only: fst_conv sample_collaborators_simps)
  have b: "enclave_state (snd ?first) = kUninitialized"
    using arg_cong [OF T1, of "\<lambda>r. enclave_state (snd r)"] user_logic_failed_not_ok
    by simp
  note T2 = asylo_user_init_contract [of "sample_collaborators OkStatus" "snd ?first"
      "''enclave''" "''cfg''" some_ptr some_ptr ?cfg,
      THEN conjunct2, THEN conjunct2, THEN conjunct2, THEN conjunct2, THEN mp, OF p2,
      THEN conjunct2, THEN mp, OF b, THEN conjunct2]
  have c: "fst ?retry = Serialized OkStatus"
    using arg_cong [OF T2, of fst] by (simp only: fst_conv sample_collaborators_simps)
  have d: "enclave_state (snd ?retry) = kRunning"
    using arg_cong [OF T2, of "\<lambda>r. enclave_state (snd r)"] OkStatus_ok
    by simp
  note T3 = asylo_user_init_contract [of "sample_collaborators OkStatus" "app_in kRunning"
      "''enclave''" "''cfg''" some_ptr some_ptr ?cfg,
      THEN conjunct2, THEN conjunct2, THEN conjunct2, THEN conjunct2, THEN mp, OF p2,
      THEN conjunct1, THEN mp, OF s3]
  have e: "asylo_user_init (sample_collaborators OkStatus) (app_in kRunning) ''enclave'' ''cfg''
             some_ptr some_ptr
     = (Serialized (mkStatus FAILED_PRECONDITION
               [Lit ''Enclave is in state: '', StateArg kRunning,
                Lit '' expected state: '', StateArg kUninitialized]), app_in kRunning)"
    using T3 by (simp add: app_in_def)
  note f = asylo_user_init_contract [of "sample_collaborators OkStatus" "app_in kUninitialized"
      "''enclave''" "''cfg''" None some_ptr ?cfg,
      THEN conjunct2, THEN conjunct2, THEN conjunct1, THEN mp, OF p4]
  note g = asylo_user_init_contract [of "sample_collaborators OkStatus" "app_in kUninitialized"
      "''enclave''" "[CHR 0xFF]" some_ptr some_ptr ?cfg,
      THEN conjunct2, THEN conjunct2, THEN conjunct2, THEN conjunct1, THEN mp, OF p3]
  from a b c d e f g show ?thesis by (intro conjI)
qed

section \<open>Finalization\<close>

text \<open>
  C3, as amended. In any state other than Running, \<^verbatim>\<open>__asylo_user_fini\<close> changes
  nothing. With a null output pointer it returns 1 without output, and with output
  pointers that are not null and an input that does not parse it reports an invalid
  argument; in both cases nothing changes, whatever the state, Running included. With
  output pointers that are not null and an input that parses: in any state other than
  Running the call reports the FAILED\_PRECONDITION error of the state check and changes
  nothing; in state Running the user's finalization runs on the object in state
  Finalizing, its status is what is serialized, and the state afterwards is Finalized
  whatever that status is.
\<close>

theorem asylo_user_fini_contract:
  "(enclave_state app \<noteq> kRunning
        \<longrightarrow> snd (asylo_user_fini c app input output output_len) = app)
 \<and> (output = None \<or> output_len = None \<longrightarrow>
      asylo_user_fini c app input output output_len = (ReturnOne, app))
 \<and> (output \<noteq> None \<and> output_len \<noteq> None \<and> ParseEnclaveFinal c input = None \<longrightarrow>
      asylo_user_fini c app input output output_len
        = (Serialized (mkStatus INVALID_ARGUMENT [Lit ''Failed to parse EnclaveFinal'']), app))
 \<and> (output \<noteq> None \<and> output_len \<noteq> None \<and> ParseEnclaveFinal c input = Some final \<longrightarrow>
      (enclave_state app \<noteq> kRunning \<longrightarrow>
         asylo_user_fini c app input output output_len
           = (Serialized (mkStatus FAILED_PRECONDITION
               [Lit ''Enclave is in state: '', StateArg (enclave_state app),
                Lit '' expected state: '', StateArg kRunning]), app))
    \<and> (enclave_state app = kRunning \<longrightarrow>
         asylo_user_fini c app input output output_len
           = (Serialized (user_Finalize c (app\<lparr>enclave_state := kFinalizing\<rparr>) final),
              app\<lparr>enclave_state := kFinalized\<rparr>)))"
  by (cases app)
     (auto simp: asylo_user_fini_def VerifyOutputArguments_def VerifyAndSetState_def
        SetState_def mkStatus_def ok_def OkStatus_def Let_def
      split: option.splits prod.splits if_splits)

text \<open>
  The claim as stated fails on an input that does not parse: in state Running the call
  reports an invalid argument and the state stays Running.
\<close>

theorem asylo_user_fini_counterexample:
  "enclave_state (app_in kRunning) = kRunning
 \<and> asylo_user_fini (sample_collaborators OkStatus) (app_in kRunning) [CHR 0xFF] some_ptr some_ptr
     = (Serialized (mkStatus INVALID_ARGUMENT [Lit ''Failed to parse EnclaveFinal'']),
        app_in kRunning)
 \<and> enclave_state (snd (asylo_user_fini (sample_collaborators OkStatus) (app_in kRunning)
        [CHR 0xFF] some_ptr some_ptr)) \<noteq> kFinalized"
  by (simp add: asylo_user_fini_def VerifyOutputArguments_def some_ptr_def ok_def OkStatus_def
        mkStatus_def app_in_def)

text \<open>
  Calls in state Uninitialized and in state Running, with finalization that succeeds
  and that fails, and calls in state Running with a null output pointer and with an
  input that does not parse.
\<close>

theorem asylo_user_fini_contract_witness:
  "asylo_user_fini (sample_collaborators OkStatus) (app_in kUninitialized) ''fin'' some_ptr some_ptr
     = (Serialized (mkStatus FAILED_PRECONDITION
               [Lit ''Enclave is in state: '', StateArg kUninitialized,
                Lit '' expected state: '', StateArg kRunning]), app_in kUninitialized)
 \<and> asylo_user_fini (sample_collaborators OkStatus) (app_in kRunning) ''fin'' some_ptr some_ptr
     = (Serialized OkStatus, app_in kFinalized)
 \<and> asylo_user_fini (sample_collaborators user_logic_failed) (app_in kRunning) ''fin''
       some_ptr some_ptr
     = (Serialized user_logic_failed, app_in kFinalized)
 \<and> asylo_user_fini (sample_collaborators OkStatus) (app_in kRunning) ''fin'' some_ptr None
     = (ReturnOne, app_in kRunning)
 \<and> asylo_user_fini (sample_collaborators OkStatus) (app_in kRunning) [CHR 0xFF]
       some_ptr some_ptr
     = (Serialized (mkStatus INVALID_ARGUMENT [Lit ''Failed to parse EnclaveFinal'']),
        app_in kRunning)"
proof -
  have p: "some_ptr \<noteq> None \<and> some_ptr \<noteq> None
      \<and> ParseEnclaveFinal (sample_collaborators OkStatus) ''fin'' = Some (EnclaveFinal [])"
    by (simp add: some_ptr_not_null)
  have p': "some_ptr \<noteq> None \<and> some_ptr \<noteq> None
      \<and> ParseEnclaveFinal (sample_collaborators user_logic_failed) ''fin''
          = Some (EnclaveFinal [])"
    by (simp add: some_ptr_not_null)
  have q: "some_ptr \<noteq> None \<and> some_ptr \<noteq> None
      \<and> ParseEnclaveFinal (sample_collaborators OkStatus) [CHR 0xFF] = None"
    by (simp add: some_ptr_not_null)
  have n: "some_ptr = None \<or> (None :: ptr) = None"
    by simp
  have s0: "enclave_state (app_in kUninitialized) \<noteq> kRunning"
    by (simp add: app_in_def)
  have s3: "enclave_state (app_in kRunning) = kRunning"
    by (simp add: app_in_def)
  have a: "asylo_user_fini (sample_collaborators OkStatus) (app_in kUninitialized) ''fin''
             some_ptr some_ptr
     = (Serialized (mkStatus FAILED_PRECONDITION
               [Lit ''Enclave is in state: '', StateArg kUninitialized,
                Lit '' expected state: '', StateArg kRunning]), app_in kUninitialized)"
    using asylo_user_fini_contract [of "app_in kUninitialized" "sample_collaborators OkStatus"
            "''fin''" some_ptr some_ptr "EnclaveFinal []",
            THEN conjunct2, THEN conjunct2, THEN conjunct2, THEN mp, OF p,
            THEN conjunct1, THEN mp, OF s0]
    by (simp add: app_in_def)
  have b: "asylo_user_fini (sample_collaborators OkStatus) (app_in kRunning) ''fin''
             some_ptr some_ptr = (Serialized OkStatus, app_in kFinalized)"
    using asylo_user_fini_contract [of "app_in kRunning" "sample_collaborators OkStatus"
            "''fin''" some_ptr some_ptr "EnclaveFinal []",
            THEN conjunct2, THEN conjunct2, THEN conjunct2, THEN mp, OF p,
            THEN conjunct2, THEN mp, OF s3]
    by (simp add: app_in_def)
  have c: "asylo_user_fini (sample_collaborators user_logic_failed) (app_in kRunning) ''fin''
             some_ptr some_ptr = (Serialized user_logic_failed, app_in kFinalized)"
    using asylo_user_fini_contract [of "app_in kRunning"
            "sample_collaborators user_logic_failed" "''fin''" some_ptr some_ptr
            "EnclaveFinal []",
            THEN conjunct2, THEN conjunct2, THEN conjunct2, THEN mp, OF p',
            THEN conjunct2, THEN mp, OF s3]
    by (simp add: app_in_def)
  note d = asylo_user_fini_contract [of "app_in kRunning" "sample_collaborators OkStatus"
            "''fin''" some_ptr None "EnclaveFinal []",
            THEN conjunct2, THEN conjunct1, THEN mp, OF n]
  note e = asylo_user_fini_contract [of "app_in kRunning" "sample_collaborators OkStatus"
            "[CHR 0xFF]" some_ptr some_ptr "EnclaveFinal []",
            THEN conjunct2, THEN conjunct2, THEN conjunct1, THEN mp, OF q]
  from a b c d e show ?thesis by (intro conjI)
qed

section \<open>Signal delivery\<close>

text \<open>With the order of the states, the window holds exactly Running and Finalizing.\<close>

lemma in_signal_window_iff: "in_signal_window s = (s = kRunning \<or> s = kFinalizing)"
  by (cases s) (simp_all add: in_signal_window_def)

text \<open>
  C4. \<^verbatim>\<open>__asylo_handle_signal\<close> calls the signal manager's handler only when the
  enclave state lies between Running and Finalizing, both included, and the translated
  signal number is not in the enclave's signal mask. In every state outside that window
  it returns a nonzero code and does not call the handler. For a masked signal, that
  is one whose translated number is in the mask, the handler is not called and the
  code is nonzero; where the mask is consulted, that is with the state inside the
  window and a translation that gave a signal number (not a negative answer), the code
  is \<open>-1\<close>. The codes are exactly: 1 for an input that does not parse, 2 for a state
  outside the window, 1 for a signal the bridge cannot translate, \<open>-1\<close> for a masked
  signal, and otherwise 0 or 1 as the handler, called once with the translated number,
  the signal code and the copied registers, succeeds or fails.
\<close>

theorem asylo_handle_signal_gate:
  "(handler_call (asylo_handle_signal c sm app input) \<noteq> None \<longrightarrow>
      in_signal_window (enclave_state app)
    \<and> (\<exists>signal. ParseEnclaveSignal c input = Some signal
          \<and> 0 \<le> FromBridgeSignal c (signum signal)
          \<and> FromBridgeSignal c (signum signal) \<notin> GetSignalMask sm))
 \<and> (\<not> in_signal_window (enclave_state app) \<longrightarrow>
      returned (asylo_handle_signal c sm app input) \<noteq> 0
    \<and> handler_call (asylo_handle_signal c sm app input) = None)
 \<and> (ParseEnclaveSignal c input = Some signal
      \<and> FromBridgeSignal c (signum signal) \<in> GetSignalMask sm \<longrightarrow>
      handler_call (asylo_handle_signal c sm app input) = None
    \<and> returned (asylo_handle_signal c sm app input) \<noteq> 0
    \<and> (in_signal_window (enclave_state app) \<and> 0 \<le> FromBridgeSignal c (signum signal) \<longrightarrow>
         asylo_handle_signal c sm app input = \<lparr>returned = - 1, handler_call = None\<rparr>))
 \<and> (ParseEnclaveSignal c input = None \<longrightarrow>
      asylo_handle_signal c sm app input = \<lparr>returned = 1, handler_call = None\<rparr>)
 \<and> (ParseEnclaveSignal c input = Some signal \<and> \<not> in_signal_window (enclave_state app) \<longrightarrow>
      asylo_handle_signal c sm app input = \<lparr>returned = 2, handler_call = None\<rparr>)
 \<and> (ParseEnclaveSignal c input = Some signal \<and> in_signal_window (enclave_state app)
      \<and> FromBridgeSignal c (signum signal) < 0 \<longrightarrow>
      asylo_handle_signal c sm app input = \<lparr>returned = 1, handler_call = None\<rparr>)
 \<and> (ParseEnclaveSignal c input = Some signal \<and> in_signal_window (enclave_state app)
      \<and> 0 \<le> FromBridgeSignal c (signum signal)
      \<and> FromBridgeSignal c (signum signal) \<notin> GetSignalMask sm \<longrightarrow>
      asylo_handle_signal c sm app input
        = \<lparr>returned =
             (if HandleSignal sm (FromBridgeSignal c (signum signal))
                   \<lparr>si_signo = FromBridgeSignal c (signum signal), si_code = code signal\<rparr>
                   (copy_gregs 0 (gregs signal) (replicate NGREG None))
              then 0 else 1),
           handler_call =
             Some (FromBridgeSignal c (signum signal),
                   \<lparr>si_signo = FromBridgeSignal c (signum signal), si_code = code signal\<rparr>,
                   copy_gregs 0 (gregs signal) (replicate NGREG None))\<rparr>)"
  by (auto simp: asylo_handle_signal_def in_signal_window_def GetState_def Let_def
      split: option.splits if_splits)

lemma untranslating_collaborators_simps [simp]:
  "ParseEnclaveSignal untranslating_collaborators ''sig''
     = Some \<lparr>signum = 10, code = 0, gregs = [1, 2]\<rparr>"
  "FromBridgeSignal untranslating_collaborators n = - 1"
  by (simp_all add: untranslating_collaborators_def no_such_signal_def)

text \<open>
  A signal delivered in state Running; the same signal in state Finalized; the signal
  masked in state Finalizing; an input that does not parse; and a signal the bridge
  cannot translate.
\<close>

theorem asylo_handle_signal_gate_witness:
  "asylo_handle_signal (sample_collaborators OkStatus) (sample_signal_manager {15})
       (app_in kRunning) ''sig''
     = \<lparr>returned = 0,
        handler_call = Some (10, \<lparr>si_signo = 10, si_code = 0\<rparr>,
                             copy_gregs 0 [1, 2] (replicate NGREG None))\<rparr>
 \<and> in_signal_window (enclave_state (app_in kRunning))
 \<and> (10::int) \<notin> GetSignalMask (sample_signal_manager {15})
 \<and> \<not> in_signal_window (enclave_state (app_in kFinalized))
 \<and> asylo_handle_signal (sample_collaborators OkStatus) (sample_signal_manager {15})
       (app_in kFinalized) ''sig''
     = \<lparr>returned = 2, handler_call = None\<rparr>
 \<and> returned (asylo_handle_signal (sample_collaborators OkStatus) (sample_signal_manager {15})
                   (app_in kFinalized) ''sig'') \<noteq> 0
 \<and> (10::int) \<in> GetSignalMask (sample_signal_manager {10})
 \<and> asylo_handle_signal (sample_collaborators OkStatus) (sample_signal_manager {10})
       (app_in kFinalizing) ''sig''
     = \<lparr>returned = - 1, handler_call = None\<rparr>
 \<and> asylo_handle_signal (sample_collaborators OkStatus) (sample_signal_manager {10})
       (app_in kRunning) [CHR 0xFF]
     = \<lparr>returned = 1, handler_call = None\<rparr>
 \<and> asylo_handle_signal untranslating_collaborators (sample_signal_manager {10})
       (app_in kRunning) ''sig''
     = \<lparr>returned = 1, handler_call = None\<rparr>"
proof -
  let ?sig = "\<lparr>signum = 10, code = 0, gregs = [1, 2]\<rparr>"
  let ?c = "sample_collaborators OkStatus"
  note T = asylo_handle_signal_gate [where signal = ?sig]
  have run: "in_signal_window (enclave_state (app_in kRunning))"
    and fin: "in_signal_window (enclave_state (app_in kFinalizing))"
    and out: "\<not> in_signal_window (enclave_state (app_in kFinalized))"
    by (simp_all add: in_signal_window_def app_in_def)
  have m1: "(10::int) \<notin> GetSignalMask (sample_signal_manager {15})"
    and m2: "(10::int) \<in> GetSignalMask (sample_signal_manager {10})"
    by (simp_all add: sample_signal_manager_def)
  have h1: "ParseEnclaveSignal ?c ''sig'' = Some ?sig
      \<and> in_signal_window (enclave_state (app_in kRunning))
      \<and> 0 \<le> FromBridgeSignal ?c (signum ?sig)
      \<and> FromBridgeSignal ?c (signum ?sig) \<notin> GetSignalMask (sample_signal_manager {15})"
    using run m1 by simp
  have d: "asylo_handle_signal ?c (sample_signal_manager {15}) (app_in kRunning) ''sig''
     = \<lparr>returned = 0,
        handler_call = Some (10, \<lparr>si_signo = 10, si_code = 0\<rparr>,
                             copy_gregs 0 [1, 2] (replicate NGREG None))\<rparr>"
    using T [of ?c "sample_signal_manager {15}" "app_in kRunning" "''sig''",
             THEN conjunct2, THEN conjunct2, THEN conjunct2, THEN conjunct2, THEN conjunct2,
             THEN conjunct2, THEN mp, OF h1]
    by (simp add: sample_signal_manager_def)
  have called: "handler_call (asylo_handle_signal ?c (sample_signal_manager {15})
                  (app_in kRunning) ''sig'') \<noteq> None"
    by (simp add: d)
  note w1 = T [of ?c "sample_signal_manager {15}" "app_in kRunning" "''sig''",
               THEN conjunct1, THEN mp, OF called, THEN conjunct1]
  note w2 = T [of ?c "sample_signal_manager {15}" "app_in kFinalized" "''sig''",
               THEN conjunct2, THEN conjunct1, THEN mp, OF out, THEN conjunct1]
  have h2: "ParseEnclaveSignal ?c ''sig'' = Some ?sig
      \<and> \<not> in_signal_window (enclave_state (app_in kFinalized))"
    using out by simp
  note w3 = T [of ?c "sample_signal_manager {15}" "app_in kFinalized" "''sig''",
               THEN conjunct2, THEN conjunct2, THEN conjunct2, THEN conjunct2,
               THEN conjunct1, THEN mp, OF h2]
  have h3: "ParseEnclaveSignal ?c ''sig'' = Some ?sig
      \<and> FromBridgeSignal ?c (signum ?sig) \<in> GetSignalMask (sample_signal_manager {10})"
    using m2 by simp
  have h3': "in_signal_window (enclave_state (app_in kFinalizing))
      \<and> 0 \<le> FromBridgeSignal ?c (signum ?sig)"
    using fin by simp
  note w4 = T [of ?c "sample_signal_manager {10}" "app_in kFinalizing" "''sig''",
               THEN conjunct2, THEN conjunct2, THEN conjunct1, THEN mp, OF h3,
               THEN conjunct2, THEN conjunct2, THEN mp, OF h3']
  have h4: "ParseEnclaveSignal ?c [CHR 0xFF] = None"
    by (simp add: sample_collaborators_def sample_parse_def)
  note w5 = T [of ?c "sample_signal_manager {10}" "app_in kRunning" "[CHR 0xFF]",
               THEN conjunct2, THEN conjunct2, THEN conjunct2, THEN conjunct1, THEN mp, OF h4]
  have h5: "ParseEnclaveSignal untranslating_collaborators ''sig'' = Some ?sig
      \<and> in_signal_window (enclave_state (app_in kRunning))
      \<and> FromBridgeSignal untranslating_collaborators (signum ?sig) < 0"
    using run by simp
  note w6 = T [of untranslating_collaborators "sample_signal_manager {10}" "app_in kRunning"
               "''sig''",
               THEN conjunct2, THEN conjunct2, THEN conjunct2, THEN conjunct2, THEN conjunct2,
               THEN conjunct1, THEN mp, OF h5]
  from d w1 m1 out w3 w2 m2 w4 w5 w6 show ?thesis by (intro conjI)
qed

section \<open>The parent's wait for the forked child\<close>




text \<open>
  The four ways the wait ends without a usable answer from the child: a failing
  \<^verbatim>\<open>select\<close>, the timeout, a failing \<^verbatim>\<open>read\<close>, and end of file. Each returns
  \<open>-1\<close>; \<^verbatim>\<open>errno\<close> is the one of the failing call, EFAULT on the timeout, and
  untouched at end of file.
\<close>

lemma wait_for_child_select_error:
  "select_ret h timeout_seconds < 0 \<Longrightarrow>
   wait_for_child h pid errno
     = Some \<lparr>fork_returned = - 1, errno_after = select_errno h, pipe_written = None\<rparr>"
  by (simp add: wait_for_child_def)

lemma wait_for_child_timeout:
  "select_ret h timeout_seconds = 0 \<Longrightarrow>
   wait_for_child h pid errno
     = Some \<lparr>fork_returned = - 1, errno_after = EFAULT, pipe_written = None\<rparr>"
  by (simp add: wait_for_child_def)

lemma wait_for_child_read_error:
  "0 < select_ret h timeout_seconds \<Longrightarrow> read_fails h = Some e \<Longrightarrow>
   wait_for_child h pid errno
     = Some \<lparr>fork_returned = - 1, errno_after = e, pipe_written = None\<rparr>"
  by (simp add: wait_for_child_def)

lemma wait_for_child_eof:
  "0 < select_ret h timeout_seconds \<Longrightarrow> read_fails h = None \<Longrightarrow> pipe_content h = [] \<Longrightarrow>
   wait_for_child h pid errno
     = Some \<lparr>fork_returned = - 1, errno_after = errno, pipe_written = None\<rparr>"
  by (simp add: wait_for_child_def read_into_def)


text \<open>
  C5. The failure of the errno part of the claim on the code. A child whose restore
  fails writes ``Child EnterAndRestore failed'' to the pipe. The parent that reads this
  string, entered with \<^verbatim>\<open>errno = 0\<close>, returns \<open>-1\<close> and \<^verbatim>\<open>errno\<close> is still 0:
  no error is stored for the caller. The same holds when \<^verbatim>\<open>read\<close> returns 0 because
  the child closed the pipe without writing.
\<close>

theorem fork_mismatch_leaves_errno_unset:
  "ocall_enc_untrusted_fork (sample_host 0 False []) True 0
     = Some \<lparr>fork_returned = - 1, errno_after = EAGAIN,
             pipe_written = Some ''Child EnterAndRestore failed''\<rparr>
 \<and> ocall_enc_untrusted_fork (sample_host 4711 True ''Child EnterAndRestore failed'') True 0
     = Some \<lparr>fork_returned = - 1, errno_after = 0, pipe_written = None\<rparr>
 \<and> ocall_enc_untrusted_fork (sample_host 4711 True []) True 0
     = Some \<lparr>fork_returned = - 1, errno_after = 0, pipe_written = None\<rparr>"
  by code_simp

section \<open>The terminator of the confirmation buffer\<close>

text \<open>
  For a byte count between 1 and 64, the store of the terminator at that index is
  inside the 64-byte buffer exactly when the count is below 64.
\<close>

lemma terminator_store_in_bounds_iff:
  "length buf = buf_size \<Longrightarrow> 0 < rc \<Longrightarrow> rc \<le> 64 \<Longrightarrow>
   (store_char buf rc c \<noteq> None) = (rc < 64)"
  by (auto simp: store_char_def buf_size_def)









section \<open>Key messages\<close>

text \<open>
  C6, as amended. \<^verbatim>\<open>CreateFromProto\<close>, for signing and for verifying key classes
  alike, rejects each of the four malformed shapes: an unknown signature scheme with
  invalid-argument; a key\_type tag other than the one of the key class with
  invalid-argument; and, in a message whose key\_type and scheme are right, an
  unrecognized encoding with unimplemented, and key bytes that do not decode in the
  encoding the tag names with internal. The error kinds are three, pairwise distinct:
  the first two shapes share invalid-argument.
\<close>

theorem CreateFromProto_rejections:
  "(signature_scheme p = UNKNOWN_SIGNATURE_SCHEME \<longrightarrow>
      CreateFromProto cls p = Inl INVALID_ARGUMENT)
 \<and> (key_type p \<noteq> class_key_type cls \<longrightarrow>
      CreateFromProto cls p = Inl INVALID_ARGUMENT)
 \<and> (well_tagged cls p \<and> encoding p = UNKNOWN_ASYMMETRIC_KEY_ENCODING \<longrightarrow>
      CreateFromProto cls p = Inl UNIMPLEMENTED)
 \<and> (well_tagged cls p \<and> encoding p = ASYMMETRIC_KEY_DER \<and> decode_der cls (key p) = None \<longrightarrow>
      CreateFromProto cls p = Inl INTERNAL)
 \<and> (well_tagged cls p \<and> encoding p = ASYMMETRIC_KEY_PEM \<and> decode_pem cls (key p) = None \<longrightarrow>
      CreateFromProto cls p = Inl INTERNAL)
 \<and> INVALID_ARGUMENT \<noteq> UNIMPLEMENTED \<and> INVALID_ARGUMENT \<noteq> INTERNAL \<and> UNIMPLEMENTED \<noteq> INTERNAL"
  by (simp add: CreateFromProto_def CreateFromDer_def CreateFromPem_def well_tagged_def)

text \<open>
  The claim as stated fails: the unknown scheme and the opposite key type are rejected
  with the same error kind, for verifying and for signing keys.
\<close>

theorem CreateFromProto_counterexample:
  "CreateFromProto (sample_key_class VERIFYING_KEY)
     ((pem_key_proto VERIFYING_KEY)\<lparr>signature_scheme := UNKNOWN_SIGNATURE_SCHEME\<rparr>)
     = Inl INVALID_ARGUMENT
 \<and> CreateFromProto (sample_key_class VERIFYING_KEY)
     ((pem_key_proto VERIFYING_KEY)\<lparr>key_type := SIGNING_KEY\<rparr>)
     = Inl INVALID_ARGUMENT
 \<and> CreateFromProto (sample_key_class SIGNING_KEY)
     ((pem_key_proto SIGNING_KEY)\<lparr>signature_scheme := UNKNOWN_SIGNATURE_SCHEME\<rparr>)
     = Inl INVALID_ARGUMENT
 \<and> CreateFromProto (sample_key_class SIGNING_KEY)
     ((pem_key_proto SIGNING_KEY)\<lparr>key_type := VERIFYING_KEY\<rparr>)
     = Inl INVALID_ARGUMENT"
  by (simp add: CreateFromProto_def sample_key_class_def pem_key_proto_def)

theorem CreateFromProto_rejections_witness:
  "CreateFromProto (sample_key_class VERIFYING_KEY)
     ((pem_key_proto VERIFYING_KEY)\<lparr>signature_scheme := UNKNOWN_SIGNATURE_SCHEME\<rparr>)
     = Inl INVALID_ARGUMENT
 \<and> CreateFromProto (sample_key_class VERIFYING_KEY)
     ((pem_key_proto VERIFYING_KEY)\<lparr>key_type := SIGNING_KEY\<rparr>)
     = Inl INVALID_ARGUMENT
 \<and> CreateFromProto (sample_key_class VERIFYING_KEY)
     ((pem_key_proto VERIFYING_KEY)\<lparr>encoding := UNKNOWN_ASYMMETRIC_KEY_ENCODING\<rparr>)
     = Inl UNIMPLEMENTED
 \<and> CreateFromProto (sample_key_class VERIFYING_KEY)
     ((pem_key_proto VERIFYING_KEY)\<lparr>encoding := ASYMMETRIC_KEY_DER\<rparr>)
     = Inl INTERNAL
 \<and> CreateFromProto (sample_key_class SIGNING_KEY)
     ((pem_key_proto SIGNING_KEY)\<lparr>key_type := VERIFYING_KEY\<rparr>)
     = Inl INVALID_ARGUMENT"
  using CreateFromProto_rejections
          [of "(pem_key_proto VERIFYING_KEY)\<lparr>signature_scheme := UNKNOWN_SIGNATURE_SCHEME\<rparr>"
              "sample_key_class VERIFYING_KEY"]
        CreateFromProto_rejections
          [of "(pem_key_proto VERIFYING_KEY)\<lparr>key_type := SIGNING_KEY\<rparr>"
              "sample_key_class VERIFYING_KEY"]
        CreateFromProto_rejections
          [of "(pem_key_proto VERIFYING_KEY)\<lparr>encoding := UNKNOWN_ASYMMETRIC_KEY_ENCODING\<rparr>"
              "sample_key_class VERIFYING_KEY"]
        CreateFromProto_rejections
          [of "(pem_key_proto VERIFYING_KEY)\<lparr>encoding := ASYMMETRIC_KEY_DER\<rparr>"
              "sample_key_class VERIFYING_KEY"]
        CreateFromProto_rejections
          [of "(pem_key_proto SIGNING_KEY)\<lparr>key_type := VERIFYING_KEY\<rparr>"
              "sample_key_class SIGNING_KEY"]
  by (simp add: well_tagged_def sample_key_class_def pem_key_proto_def is_pem_def pem_header_def)

section \<open>Structural validation of signatures\<close>

text \<open>
  C7. For every verifying key, message and structured signature: when the scheme tag
  differs from the key's scheme, the ECDSA payload is absent, or R or S is missing,
  shorter or longer than the byte length the curve order implies, \<^verbatim>\<open>Verify\<close> returns
  invalid-argument and the cryptographic check has not been attempted, whatever that
  check would answer. A verification failure is returned only for a structurally valid
  signature that the cryptographic check refuses.
\<close>

theorem Verify_structural_validation_first:
  "(structurally_invalid vk signature \<longrightarrow>
      Verify ecdsa_verify vk message signature
        = \<lparr>verify_status = Rejected INVALID_ARGUMENT, crypto_attempted = False\<rparr>)
 \<and> (verify_status (Verify ecdsa_verify vk message signature) = VerificationFailed \<longrightarrow>
      \<not> structurally_invalid vk signature
    \<and> crypto_attempted (Verify ecdsa_verify vk message signature)
    \<and> (\<exists>e r s. ecdsa_signature signature = Some e \<and> sig_r e = Some r \<and> sig_s e = Some s
          \<and> \<not> ecdsa_verify (vk_material vk) message r s))"
  by (auto simp: Verify_def structurally_invalid_def bad_component_def rejected_before_crypto_def
      split: option.splits if_splits)

lemma sample_structurally_invalid:
  "structurally_invalid sample_verifying_key
     (signature_with UNKNOWN_SIGNATURE_SCHEME (Some full_size) (Some full_size))"
  "structurally_invalid sample_verifying_key signature_without_payload"
  "structurally_invalid sample_verifying_key
     (signature_with ECDSA_P256_SHA256 None (Some full_size))"
  "structurally_invalid sample_verifying_key
     (signature_with ECDSA_P256_SHA256 (Some ''too short'') (Some full_size))"
  "structurally_invalid sample_verifying_key
     (signature_with ECDSA_P256_SHA256 (Some full_size)
        (Some ''this is an s field that is way too long''))"
  by (simp_all add: structurally_invalid_def bad_component_def sample_verifying_key_def
        signature_with_def signature_without_payload_def full_size_def)

lemma sample_verification_failed:
  "verify_status (Verify refuse_any sample_verifying_key ''message''
      (signature_with ECDSA_P256_SHA256 (Some full_size) (Some full_size))) = VerificationFailed"
  by (simp add: Verify_def sample_verifying_key_def signature_with_def full_size_def
        refuse_any_def)

theorem Verify_structural_validation_first_witness:
  "Verify accept_any sample_verifying_key ''message''
     (signature_with UNKNOWN_SIGNATURE_SCHEME (Some full_size) (Some full_size))
     = \<lparr>verify_status = Rejected INVALID_ARGUMENT, crypto_attempted = False\<rparr>
 \<and> Verify accept_any sample_verifying_key ''message'' signature_without_payload
     = \<lparr>verify_status = Rejected INVALID_ARGUMENT, crypto_attempted = False\<rparr>
 \<and> Verify accept_any sample_verifying_key ''message''
     (signature_with ECDSA_P256_SHA256 None (Some full_size))
     = \<lparr>verify_status = Rejected INVALID_ARGUMENT, crypto_attempted = False\<rparr>
 \<and> Verify accept_any sample_verifying_key ''message''
     (signature_with ECDSA_P256_SHA256 (Some ''too short'') (Some full_size))
     = \<lparr>verify_status = Rejected INVALID_ARGUMENT, crypto_attempted = False\<rparr>
 \<and> Verify accept_any sample_verifying_key ''message''
     (signature_with ECDSA_P256_SHA256 (Some full_size)
        (Some ''this is an s field that is way too long''))
     = \<lparr>verify_status = Rejected INVALID_ARGUMENT, crypto_attempted = False\<rparr>
 \<and> \<not> structurally_invalid sample_verifying_key
       (signature_with ECDSA_P256_SHA256 (Some full_size) (Some full_size))
 \<and> crypto_attempted (Verify refuse_any sample_verifying_key ''message''
       (signature_with ECDSA_P256_SHA256 (Some full_size) (Some full_size)))"
proof -
  note T = Verify_structural_validation_first
             [where vk = sample_verifying_key and message = "''message''"]
  note R = T [where ecdsa_verify = accept_any, THEN conjunct1, THEN mp]
  note F = T [where ecdsa_verify = refuse_any, THEN conjunct2, THEN mp,
              OF sample_verification_failed]
  from R [OF sample_structurally_invalid(1)] R [OF sample_structurally_invalid(2)]
       R [OF sample_structurally_invalid(3)] R [OF sample_structurally_invalid(4)]
       R [OF sample_structurally_invalid(5)] F [THEN conjunct1] F [THEN conjunct2, THEN conjunct1]
  show ?thesis by (intro conjI)
qed

end
